theory Spec2Isabelle
  imports Main
begin

section \<open>JavaScript values\<close>

text \<open>
  The values that travel through the WebChannel: the primitives, plain objects (an ordered
  list of own properties) and arrays. Numbers are the integral ones. Function values are
  not data of the channel and are not represented.
\<close>

datatype jsval =
    JUndefined
  | JNull
  | JBool bool
  | JNum int
  | JStr string
  | JArr "jsval list"
  | JObj "(string \<times> jsval) list"

text \<open>The \<^verbatim>\<open>typeof\<close> operator.\<close>

fun typeof :: "jsval \<Rightarrow> string" where
  "typeof JUndefined = ''undefined''"
| "typeof JNull = ''object''"
| "typeof (JBool b) = ''boolean''"
| "typeof (JNum n) = ''number''"
| "typeof (JStr s) = ''string''"
| "typeof (JArr xs) = ''object''"
| "typeof (JObj kvs) = ''object''"

text \<open>Truthiness, as \<^verbatim>\<open>message && ...\<close> tests it.\<close>

fun truthy :: "jsval \<Rightarrow> bool" where
  "truthy JUndefined = False"
| "truthy JNull = False"
| "truthy (JBool b) = b"
| "truthy (JNum n) = (n \<noteq> 0)"
| "truthy (JStr s) = (s \<noteq> [])"
| "truthy (JArr xs) = True"
| "truthy (JObj kvs) = True"

text \<open>Decimal digits of a natural number, as JavaScript prints an integral number.\<close>

definition digit_char :: "nat \<Rightarrow> char" where
  "digit_char d = char_of (48 + d)"

function show_nat :: "nat \<Rightarrow> string" where
  "show_nat n = (if n < 10 then [digit_char n] else show_nat (n div 10) @ [digit_char (n mod 10)])"
  by pat_completeness auto
termination
  by (relation "measure id") auto

declare show_nat.simps [simp del]

definition show_int :: "int \<Rightarrow> string" where
  "show_int i = (if i < 0 then CHR ''-'' # show_nat (nat (- i)) else show_nat (nat i))"

text \<open>
  Reading a property of a value that is neither \<^verbatim>\<open>undefined\<close> nor \<^verbatim>\<open>null\<close>: the own
  properties of an object, the length and the elements of an array or a string, and
  \<^verbatim>\<open>undefined\<close> for every other name. None of the names this module reads (\<^verbatim>\<open>id\<close>,
  \<^verbatim>\<open>message\<close>, \<^verbatim>\<open>error\<close>, \<^verbatim>\<open>type\<close>, \<^verbatim>\<open>menuButtonIsEnabled\<close>) is inherited from a
  prototype.
\<close>

definition index_of_name :: "nat \<Rightarrow> string \<Rightarrow> nat option" where
  "index_of_name len k =
     (case filter (\<lambda>i. show_nat i = k) [0..<len] of [] \<Rightarrow> None | i # _ \<Rightarrow> Some i)"

fun get_prop :: "jsval \<Rightarrow> string \<Rightarrow> jsval" where
  "get_prop (JObj kvs) k = (case map_of kvs k of None \<Rightarrow> JUndefined | Some v \<Rightarrow> v)"
| "get_prop (JArr xs) k =
     (if k = ''length'' then JNum (int (length xs))
      else case index_of_name (length xs) k of None \<Rightarrow> JUndefined | Some i \<Rightarrow> xs ! i)"
| "get_prop (JStr s) k =
     (if k = ''length'' then JNum (int (length s))
      else case index_of_name (length s) k of None \<Rightarrow> JUndefined | Some i \<Rightarrow> JStr [s ! i])"
| "get_prop v k = JUndefined"

text \<open>The string inside a value whose \<^verbatim>\<open>typeof\<close> is \<^verbatim>\<open>'string'\<close> (used for template
  literals, which this module only fills with such values).\<close>

fun string_of :: "jsval \<Rightarrow> string" where
  "string_of (JStr s) = s"
| "string_of v = []"


section \<open>The page: one pending request, its listener and its promise\<close>

text \<open>What a promise is rejected with: the inbound message itself, a fresh
  \<^verbatim>\<open>Error\<close> object with the given text, or an exception thrown inside an async
  function.\<close>

datatype js_exception = TypeError

datatype reason = MessageValue jsval | ErrorObject string | Thrown js_exception

datatype promise_state = Pending | Resolved jsval | Rejected reason

text \<open>Every observable call the module makes, in the order it makes it.\<close>

datatype effect =
    AddEventListener string
  | RemoveEventListener string
  | DispatchEvent string jsval
  | ConsoleLog "jsval list"
  | ConsoleError "jsval list"
  | CallResolve jsval
  | CallReject reason

text \<open>
  \<open>registered\<close>: the listener of the request is among the window's listeners of
  \<^verbatim>\<open>WebChannelMessageToContent\<close>; \<open>promise\<close>: the state of the promise that
  \<^verbatim>\<open>_sendMessageWithResponse\<close> returned; \<open>trace\<close>: the calls made so far.
\<close>

record state =
  registered :: bool
  promise :: promise_state
  trace :: "effect list"

text \<open>An inbound \<^verbatim>\<open>CustomEvent\<close>: only its \<^verbatim>\<open>detail\<close> is read.\<close>

record event =
  detail :: jsval

definition emit :: "effect \<Rightarrow> state \<Rightarrow> state" where
  "emit x s = s\<lparr>trace := trace s @ [x]\<rparr>"

definition console_error :: "jsval list \<Rightarrow> state \<Rightarrow> state" where
  "console_error args s = emit (ConsoleError args) s"

definition console_log :: "jsval list \<Rightarrow> state \<Rightarrow> state" where
  "console_log args s = emit (ConsoleLog args) s"

text \<open>\<^verbatim>\<open>window.addEventListener\<close> and \<^verbatim>\<open>window.removeEventListener\<close> for the listener of
  the request; removing a listener that is not registered changes nothing but is still a
  call.\<close>

definition addEventListener :: "string \<Rightarrow> state \<Rightarrow> state" where
  "addEventListener name s = emit (AddEventListener name) (s\<lparr>registered := True\<rparr>)"

definition removeEventListener :: "string \<Rightarrow> state \<Rightarrow> state" where
  "removeEventListener name s = emit (RemoveEventListener name) (s\<lparr>registered := False\<rparr>)"

text \<open>The two continuations of the promise: a settled promise ignores further calls.\<close>

definition resolve :: "jsval \<Rightarrow> state \<Rightarrow> state" where
  "resolve v s =
     emit (CallResolve v) (if promise s = Pending then s\<lparr>promise := Resolved v\<rparr> else s)"

definition reject :: "reason \<Rightarrow> state \<Rightarrow> state" where
  "reject r s =
     emit (CallReject r) (if promise s = Pending then s\<lparr>promise := Rejected r\<rparr> else s)"

definition LOG_STYLE :: string where
  "LOG_STYLE = ''font-weight: bold; color: #0a6''"

text \<open>The event as \<^verbatim>\<open>console.error\<close> receives it.\<close>

definition event_value :: "event \<Rightarrow> jsval" where
  "event_value e = JObj [(''detail'', detail e)]"

text \<open>The two statements after the outer \<^verbatim>\<open>if\<close> of the listener (lines 137 to 139).\<close>

definition listener_tail :: "(reason \<Rightarrow> state \<Rightarrow> state) \<Rightarrow> event \<Rightarrow> state \<Rightarrow> state" where
  "listener_tail rej e s =
     console_error [JStr ''[webchannel] %cmalformed event received'', JStr LOG_STYLE, event_value e]
       (rej (ErrorObject ''A malformed WebChannel event was received.'') s)"

text \<open>
  The listener that \<^verbatim>\<open>_registerOneOffListener\<close> creates (lines 91 to 140), for a callback
  and a reject continuation. \<open>development\<close> is \<^verbatim>\<open>process.env.NODE_ENV === 'development'\<close>.
  Destructuring a \<^verbatim>\<open>detail\<close> that is \<^verbatim>\<open>undefined\<close> or \<^verbatim>\<open>null\<close> throws.
\<close>

definition listener ::
  "bool \<Rightarrow> (jsval \<Rightarrow> state \<Rightarrow> bool \<times> state) \<Rightarrow> (reason \<Rightarrow> state \<Rightarrow> state) \<Rightarrow>
   event \<Rightarrow> state \<Rightarrow> js_exception + state" where
  "listener development callback rej e s =
     (if detail e = JUndefined \<or> detail e = JNull then Inl TypeError
      else
        let id = get_prop (detail e) ''id'';
            message = get_prop (detail e) ''message''
        in
          if id = JStr ''profiler.firefox.com'' \<and> truthy message \<and> typeof message = ''object''
          then
            let error = get_prop message ''error'';
                type = get_prop message ''type''
            in
              if typeof error = ''string'' then
                Inr (rej (MessageValue message)
                      (removeEventListener ''WebChannelMessageToContent''
                        (console_error [JStr (''[webchannel] %c'' @ string_of error), JStr LOG_STYLE] s)))
              else if typeof type = ''string'' then
                (case callback message s of
                   (True, s') \<Rightarrow>
                     Inr (removeEventListener ''WebChannelMessageToContent''
                           (if development
                            then console_log
                                   [JStr (''[webchannel] %creceived '' @ [CHR 0x22] @ string_of type @ [CHR 0x22]),
                                    JStr LOG_STYLE, message] s'
                            else s'))
                 | (False, s') \<Rightarrow> Inr s')
              else Inr (listener_tail rej e s)
          else Inr (listener_tail rej e s))"

text \<open>
  \<^verbatim>\<open>_registerOneOffListener\<close> (lines 86 to 143; an Isabelle name cannot start with an
  underscore): besides creating the listener it only adds it to the window. The closure
  itself is not kept in the state: \<open>deliver\<close> below runs the listener with the callback
  and the continuation it was created with.
\<close>

definition registerOneOffListener :: "state \<Rightarrow> state" where
  "registerOneOffListener s = addEventListener ''WebChannelMessageToContent'' s"

text \<open>\<^verbatim>\<open>handleMessage\<close> (lines 173 to 183), for the expected response type. The listener
  is its only caller and passes it an object.\<close>

definition handleMessage :: "string \<Rightarrow> jsval \<Rightarrow> state \<Rightarrow> bool \<times> state" where
  "handleMessage expectedResponse message s =
     (if get_prop message ''type'' = JStr expectedResponse
      then (True, resolve message s)
      else (False, s))"

text \<open>
  The window delivering one inbound \<^verbatim>\<open>WebChannelMessageToContent\<close> event: the listener
  runs only while it is registered; an exception it throws is reported by the window and
  leaves the request as it was.
\<close>

definition deliver :: "bool \<Rightarrow> string \<Rightarrow> event \<Rightarrow> state \<Rightarrow> state" where
  "deliver development expectedResponse e s =
     (if registered s
      then (case listener development (handleMessage expectedResponse) reject e s of
              Inl x \<Rightarrow> s
            | Inr s' \<Rightarrow> s')
      else s)"

fun deliver_all :: "bool \<Rightarrow> string \<Rightarrow> event list \<Rightarrow> state \<Rightarrow> state" where
  "deliver_all development expectedResponse [] s = s"
| "deliver_all development expectedResponse (e # es) s =
     deliver_all development expectedResponse es (deliver development expectedResponse e s)"


section \<open>JSON\<close>

text \<open>
  \<^verbatim>\<open>JSON.stringify\<close> with one argument. The result \<open>None\<close> is the value
  \<^verbatim>\<open>undefined\<close> (what serialising \<^verbatim>\<open>undefined\<close> gives); a property whose value
  serialises to \<^verbatim>\<open>undefined\<close> is left out, an array element is written \<^verbatim>\<open>null\<close>. An
  integral number is written in decimal (as JavaScript writes it below \<open>10\<^sup>2\<^sup>1\<close>). The
  values of \<^typ>\<open>jsval\<close> are finite trees, so there is no cycle to throw on.
\<close>

definition hex_char :: "nat \<Rightarrow> char" where
  "hex_char d = (if d < 10 then char_of (48 + d) else char_of (87 + d))"

definition quote_char :: "char \<Rightarrow> string" where
  "quote_char c =
     (if c = CHR 0x08 then [CHR 0x5C, CHR ''b'']
      else if c = CHR 0x09 then [CHR 0x5C, CHR ''t'']
      else if c = CHR 0x0A then [CHR 0x5C, CHR ''n'']
      else if c = CHR 0x0C then [CHR 0x5C, CHR ''f'']
      else if c = CHR 0x0D then [CHR 0x5C, CHR ''r'']
      else if c = CHR 0x22 then [CHR 0x5C, CHR 0x22]
      else if c = CHR 0x5C then [CHR 0x5C, CHR 0x5C]
      else if (of_char c :: nat) < 32
        then [CHR 0x5C, CHR ''u'', CHR ''0'', CHR ''0''] @ [hex_char ((of_char c :: nat) div 16), hex_char ((of_char c :: nat) mod 16)]
      else [c])"

definition JSON_quote :: "string \<Rightarrow> string" where
  "JSON_quote s = [CHR 0x22] @ concat (map quote_char s) @ [CHR 0x22]"

fun join_comma :: "string list \<Rightarrow> string" where
  "join_comma [] = []"
| "join_comma [x] = x"
| "join_comma (x # y # ys) = x @ '','' @ join_comma (y # ys)"

fun JSON_stringify :: "jsval \<Rightarrow> string option"
  and stringify_elements :: "jsval list \<Rightarrow> string list"
  and stringify_members :: "(string \<times> jsval) list \<Rightarrow> string list" where
  "JSON_stringify JUndefined = None"
| "JSON_stringify JNull = Some ''null''"
| "JSON_stringify (JBool b) = Some (if b then ''true'' else ''false'')"
| "JSON_stringify (JNum n) = Some (show_int n)"
| "JSON_stringify (JStr s) = Some (JSON_quote s)"
| "JSON_stringify (JArr xs) = Some (''['' @ join_comma (stringify_elements xs) @ '']'')"
| "JSON_stringify (JObj kvs) = Some (''{'' @ join_comma (stringify_members kvs) @ ''}'')"
| "stringify_elements [] = []"
| "stringify_elements (x # xs) =
     (case JSON_stringify x of None \<Rightarrow> ''null'' | Some t \<Rightarrow> t) # stringify_elements xs"
| "stringify_members [] = []"
| "stringify_members (kv # kvs) =
     (case JSON_stringify (snd kv) of
        None \<Rightarrow> stringify_members kvs
      | Some t \<Rightarrow> (JSON_quote (fst kv) @ '':'' @ t) # stringify_members kvs)"

text \<open>
  \<^verbatim>\<open>JSON.parse\<close>, what the receiving side decodes the payload with. \<open>None\<close> is a
  \<^verbatim>\<open>SyntaxError\<close> (or a number that is not integral, which \<^typ>\<open>jsval\<close> does not
  have). The parser descends with a fuel that starts above the length of the text.
\<close>

fun skip_ws :: "string \<Rightarrow> string" where
  "skip_ws [] = []"
| "skip_ws (c # cs) =
     (if c = CHR 0x20 \<or> c = CHR 0x09 \<or> c = CHR 0x0A \<or> c = CHR 0x0D then skip_ws cs else c # cs)"

definition hex_value :: "char \<Rightarrow> nat option" where
  "hex_value c =
     (let n = (of_char c :: nat) in
      if 48 \<le> n \<and> n \<le> 57 then Some (n - 48)
      else if 97 \<le> n \<and> n \<le> 102 then Some (n - 87)
      else if 65 \<le> n \<and> n \<le> 70 then Some (n - 55)
      else None)"

definition unescape :: "char \<Rightarrow> char option" where
  "unescape d =
     (if d = CHR 0x22 \<or> d = CHR 0x5C \<or> d = CHR ''/'' then Some d
      else if d = CHR ''b'' then Some (CHR 0x08)
      else if d = CHR ''f'' then Some (CHR 0x0C)
      else if d = CHR ''n'' then Some (CHR 0x0A)
      else if d = CHR ''r'' then Some (CHR 0x0D)
      else if d = CHR ''t'' then Some (CHR 0x09)
      else None)"

text \<open>The characters of a string literal after its opening quote; \<open>acc\<close> holds the
  characters read so far, last first. Code units above 255 are outside \<^typ>\<open>char\<close>.\<close>

fun parse_string_chars :: "string \<Rightarrow> string \<Rightarrow> (string \<times> string) option" where
  "parse_string_chars acc [] = None"
| "parse_string_chars acc [c] = (if c = CHR 0x22 then Some (rev acc, []) else None)"
| "parse_string_chars acc (c # d # ds) =
     (if c = CHR 0x22 then Some (rev acc, d # ds)
      else if c = CHR 0x5C then
        (if d = CHR ''u'' then
           (case ds of
              h1 # h2 # h3 # h4 # rest \<Rightarrow>
                (case (hex_value h1, hex_value h2, hex_value h3, hex_value h4) of
                   (Some a, Some b, Some x, Some y) \<Rightarrow>
                     (if a = 0 \<and> b = 0 then parse_string_chars (char_of (16 * x + y) # acc) rest
                      else None)
                 | _ \<Rightarrow> None)
            | _ \<Rightarrow> None)
         else (case unescape d of None \<Rightarrow> None | Some u \<Rightarrow> parse_string_chars (u # acc) ds))
      else if (of_char c :: nat) < 32 then None
      else parse_string_chars (c # acc) (d # ds))"

definition is_digit :: "char \<Rightarrow> bool" where
  "is_digit c = (48 \<le> (of_char c :: nat) \<and> (of_char c :: nat) \<le> 57)"

definition nat_of_digits :: "string \<Rightarrow> nat" where
  "nat_of_digits ds = foldl (\<lambda>n c. 10 * n + ((of_char c :: nat) - 48)) 0 ds"

definition parse_number :: "string \<Rightarrow> (jsval \<times> string) option" where
  "parse_number cs =
     (let neg = (case cs of [] \<Rightarrow> False | c # r \<Rightarrow> c = CHR ''-'');
          body = (if neg then tl cs else cs);
          ds = takeWhile is_digit body;
          rest = dropWhile is_digit body
      in if ds = [] then None
         else if 1 < length ds \<and> hd ds = CHR ''0'' then None
         else if (case rest of [] \<Rightarrow> False | c # r \<Rightarrow> c = CHR ''.'' \<or> c = CHR ''e'' \<or> c = CHR ''E'')
           then None
         else Some (JNum (if neg then - int (nat_of_digits ds) else int (nat_of_digits ds)), rest))"

text \<open>Setting a property while building an object: a repeated key keeps its place and
  takes the later value.\<close>

fun set_member :: "(string \<times> jsval) list \<Rightarrow> string \<Rightarrow> jsval \<Rightarrow> (string \<times> jsval) list" where
  "set_member [] k v = [(k, v)]"
| "set_member (kv # kvs) k v = (if fst kv = k then (k, v) # kvs else kv # set_member kvs k v)"

fun parse_value :: "nat \<Rightarrow> string \<Rightarrow> (jsval \<times> string) option"
  and parse_elements :: "nat \<Rightarrow> jsval list \<Rightarrow> string \<Rightarrow> (jsval \<times> string) option"
  and parse_members :: "nat \<Rightarrow> (string \<times> jsval) list \<Rightarrow> string \<Rightarrow> (jsval \<times> string) option" where
  "parse_value 0 cs = None"
| "parse_value (Suc n) cs =
     (case skip_ws cs of
        [] \<Rightarrow> None
      | c # r \<Rightarrow>
          if c = CHR ''{'' then
            (case skip_ws r of
               [] \<Rightarrow> None
             | d # r' \<Rightarrow> if d = CHR ''}'' then Some (JObj [], r') else parse_members n [] (d # r'))
          else if c = CHR ''['' then
            (case skip_ws r of
               [] \<Rightarrow> None
             | d # r' \<Rightarrow> if d = CHR '']'' then Some (JArr [], r') else parse_elements n [] (d # r'))
          else if c = CHR 0x22 then
            (case parse_string_chars [] r of None \<Rightarrow> None | Some (s, r') \<Rightarrow> Some (JStr s, r'))
          else if take 4 (c # r) = ''true'' then Some (JBool True, drop 4 (c # r))
          else if take 5 (c # r) = ''false'' then Some (JBool False, drop 5 (c # r))
          else if take 4 (c # r) = ''null'' then Some (JNull, drop 4 (c # r))
          else parse_number (c # r))"
| "parse_elements 0 acc cs = None"
| "parse_elements (Suc n) acc cs =
     (case parse_value n cs of
        None \<Rightarrow> None
      | Some (v, r) \<Rightarrow>
          (case skip_ws r of
             [] \<Rightarrow> None
           | c # r' \<Rightarrow>
               if c = CHR '','' then parse_elements n (acc @ [v]) r'
               else if c = CHR '']'' then Some (JArr (acc @ [v]), r')
               else None))"
| "parse_members 0 acc cs = None"
| "parse_members (Suc n) acc cs =
     (case skip_ws cs of
        [] \<Rightarrow> None
      | c # r \<Rightarrow>
          if c = CHR 0x22 then
            (case parse_string_chars [] r of
               None \<Rightarrow> None
             | Some (k, r1) \<Rightarrow>
                 (case skip_ws r1 of
                    [] \<Rightarrow> None
                  | c1 # r2 \<Rightarrow>
                      if c1 = CHR '':'' then
                        (case parse_value n r2 of
                           None \<Rightarrow> None
                         | Some (v, r3) \<Rightarrow>
                             (case skip_ws r3 of
                                [] \<Rightarrow> None
                              | c3 # r4 \<Rightarrow>
                                  if c3 = CHR '','' then parse_members n (set_member acc k v) r4
                                  else if c3 = CHR ''}'' then Some (JObj (set_member acc k v), r4)
                                  else None))
                      else None))
          else None)"

definition JSON_parse :: "string \<Rightarrow> jsval option" where
  "JSON_parse text =
     (case parse_value (Suc (length text)) text of
        None \<Rightarrow> None
      | Some (v, rest) \<Rightarrow> if skip_ws rest = [] then Some v else None)"


section \<open>Sending a request\<close>

text \<open>The two messages of \<^verbatim>\<open>MessageToBrowser\<close> and the object each one is.\<close>

datatype MessageToBrowser = STATUS_QUERY | ENABLE_MENU_BUTTON

fun message_type :: "MessageToBrowser \<Rightarrow> string" where
  "message_type STATUS_QUERY = ''STATUS_QUERY''"
| "message_type ENABLE_MENU_BUTTON = ''ENABLE_MENU_BUTTON''"

definition message_object :: "MessageToBrowser \<Rightarrow> jsval" where
  "message_object m = JObj [(''type'', JStr (message_type m))]"

text \<open>The object that \<^verbatim>\<open>_sendMessage\<close> serialises (lines 155 to 158).\<close>

definition envelope :: "MessageToBrowser \<Rightarrow> jsval" where
  "envelope m = JObj [(''id'', JStr ''profiler.firefox.com''), (''message'', message_object m)]"

text \<open>\<^verbatim>\<open>_sendMessage\<close> (lines 148 to 161). A \<^verbatim>\<open>detail\<close> that is \<^verbatim>\<open>undefined\<close> makes
  the \<^verbatim>\<open>CustomEvent\<close> carry \<^verbatim>\<open>null\<close>.\<close>

definition sendMessage :: "bool \<Rightarrow> MessageToBrowser \<Rightarrow> state \<Rightarrow> state" where
  "sendMessage development m s =
     emit (DispatchEvent ''WebChannelMessageToChrome''
             (case JSON_stringify (envelope m) of None \<Rightarrow> JNull | Some payload \<Rightarrow> JStr payload))
       (if development
        then console_log
               [JStr (''[webchannel] %csending '' @ [CHR 0x22] @ message_type m @ [CHR 0x22]),
                JStr LOG_STYLE, message_object m] s
        else s)"

record MessageRequest =
  message :: MessageToBrowser
  expectedResponse :: string

text \<open>
  \<^verbatim>\<open>_sendMessageWithResponse\<close> (lines 168 to 187): a new pending promise, the listener
  registered, then the message sent. The listener it registers is
  \<^term>\<open>listener development (handleMessage (expectedResponse req)) reject\<close>, which
  \<^const>\<open>deliver\<close> runs.
\<close>

definition sendMessageWithResponse :: "bool \<Rightarrow> MessageRequest \<Rightarrow> state \<Rightarrow> state" where
  "sendMessageWithResponse development req s =
     sendMessage development (message req) (registerOneOffListener (s\<lparr>promise := Pending\<rparr>))"

text \<open>A page on which no request has been made.\<close>

definition fresh_page :: state where
  "fresh_page = \<lparr>registered = False, promise = Pending, trace = []\<rparr>"

text \<open>The request of \<^verbatim>\<open>queryIsMenuButtonEnabled\<close> (lines 47 to 50) and the page after the
  call, once the inbound events \<open>inbound\<close> have been delivered.\<close>

definition status_request :: MessageRequest where
  "status_request = \<lparr>message = STATUS_QUERY, expectedResponse = ''STATUS_RESPONSE''\<rparr>"

definition queryIsMenuButtonEnabled_page :: "bool \<Rightarrow> event list \<Rightarrow> state" where
  "queryIsMenuButtonEnabled_page development inbound =
     deliver_all development (expectedResponse status_request) inbound
       (sendMessageWithResponse development status_request fresh_page)"

text \<open>
  \<^verbatim>\<open>queryIsMenuButtonEnabled\<close> (lines 41 to 53): the promise the async function returns.
  It stays pending while the awaited promise is pending, rejects as the awaited promise
  rejects, and otherwise returns \<^verbatim>\<open>response.menuButtonIsEnabled\<close>.
\<close>

definition queryIsMenuButtonEnabled :: "bool \<Rightarrow> event list \<Rightarrow> promise_state" where
  "queryIsMenuButtonEnabled development inbound =
     (case promise (queryIsMenuButtonEnabled_page development inbound) of
        Pending \<Rightarrow> Pending
      | Rejected r \<Rightarrow> Rejected r
      | Resolved response \<Rightarrow>
          if response = JUndefined \<or> response = JNull then Rejected (Thrown TypeError)
          else Resolved (get_prop response ''menuButtonIsEnabled''))"

text \<open>\<^verbatim>\<open>enableMenuButton\<close> (lines 58 to 71): the response is awaited and dropped.\<close>

definition enable_request :: MessageRequest where
  "enable_request = \<lparr>message = ENABLE_MENU_BUTTON, expectedResponse = ''ENABLE_MENU_BUTTON_DONE''\<rparr>"

definition enableMenuButton :: "bool \<Rightarrow> event list \<Rightarrow> promise_state" where
  "enableMenuButton development inbound =
     (case promise (deliver_all development (expectedResponse enable_request) inbound
                     (sendMessageWithResponse development enable_request fresh_page)) of
        Pending \<Rightarrow> Pending
      | Rejected r \<Rightarrow> Rejected r
      | Resolved response \<Rightarrow> Resolved JUndefined)"


section \<open>Observations on the listener\<close>

text \<open>
  The branch of the listener an event takes (lines 92 to 137): the destructuring throws;
  the \<^verbatim>\<open>error\<close> branch; the \<^verbatim>\<open>type\<close> branch, which hands the message to the callback;
  or the statements after the outer \<^verbatim>\<open>if\<close>, reached when the outer test fails and when
  neither inner test holds.
\<close>

datatype classification = Throws | RemoteError jsval | Ok jsval | MalformedEvent

definition classify :: "event \<Rightarrow> classification" where
  "classify e =
     (if detail e = JUndefined \<or> detail e = JNull then Throws
      else
        let message = get_prop (detail e) ''message'' in
          if get_prop (detail e) ''id'' = JStr ''profiler.firefox.com'' \<and> truthy message \<and>
             typeof message = ''object''
          then
            if typeof (get_prop message ''error'') = ''string'' then RemoteError message
            else if typeof (get_prop message ''type'') = ''string'' then Ok message
            else MalformedEvent
          else MalformedEvent)"

text \<open>The events on which the listener of a request expecting \<open>expected\<close> calls
  \<^verbatim>\<open>resolve\<close> or \<^verbatim>\<open>reject\<close>.\<close>

definition terminal :: "string \<Rightarrow> event \<Rightarrow> bool" where
  "terminal expected e =
     (case classify e of
        Throws \<Rightarrow> False
      | RemoteError m \<Rightarrow> True
      | Ok m \<Rightarrow> get_prop m ''type'' = JStr expected
      | MalformedEvent \<Rightarrow> True)"

text \<open>
  The outer test of the listener (lines 95 to 99) on an event whose \<^verbatim>\<open>detail\<close> can be
  destructured, and its failure.
\<close>

definition passes_outer_test :: "event \<Rightarrow> bool" where
  "passes_outer_test e =
     (if detail e = JUndefined \<or> detail e = JNull then False
      else get_prop (detail e) ''id'' = JStr ''profiler.firefox.com'' \<and>
           truthy (get_prop (detail e) ''message'') \<and>
           typeof (get_prop (detail e) ''message'') = ''object'')"

definition fails_outer_test :: "event \<Rightarrow> bool" where
  "fails_outer_test e =
     (if detail e = JUndefined \<or> detail e = JNull then False
      else if get_prop (detail e) ''id'' = JStr ''profiler.firefox.com'' \<and>
              truthy (get_prop (detail e) ''message'') \<and>
              typeof (get_prop (detail e) ''message'') = ''object''
      then False else True)"

text \<open>
  The three kinds of terminal event as the specification lists them, each for an event of
  this channel whose message is an object: a remote error (a string \<^verbatim>\<open>error\<close>), a
  malformed event (neither a string \<^verbatim>\<open>error\<close> nor a string \<^verbatim>\<open>type\<close>), and a message
  whose \<^verbatim>\<open>type\<close> is the expected one.
\<close>

definition listed_terminal :: "string \<Rightarrow> event \<Rightarrow> bool" where
  "listed_terminal expected e =
     (if passes_outer_test e
      then if typeof (get_prop (get_prop (detail e) ''message'') ''error'') = ''string'' then True
           else if typeof (get_prop (get_prop (detail e) ''message'') ''type'') = ''string''
             then get_prop (get_prop (detail e) ''message'') ''type'' = JStr expected
           else True
      else False)"

text \<open>The arguments of the calls of \<^verbatim>\<open>resolve\<close> and of \<^verbatim>\<open>reject\<close> in a trace, and the
  number of calls of \<^verbatim>\<open>removeEventListener\<close>.\<close>

fun resolve_calls :: "effect list \<Rightarrow> jsval list" where
  "resolve_calls [] = []"
| "resolve_calls (CallResolve v # xs) = v # resolve_calls xs"
| "resolve_calls (x # xs) = resolve_calls xs"

fun reject_calls :: "effect list \<Rightarrow> reason list" where
  "reject_calls [] = []"
| "reject_calls (CallReject r # xs) = r # reject_calls xs"
| "reject_calls (x # xs) = reject_calls xs"

fun removals :: "effect list \<Rightarrow> nat" where
  "removals [] = 0"
| "removals (RemoveEventListener n # xs) = Suc (removals xs)"
| "removals (x # xs) = removals xs"

text \<open>The events that \<^verbatim>\<open>_sendMessage\<close> dispatched, in a trace.\<close>

fun dispatches :: "effect list \<Rightarrow> (string \<times> jsval) list" where
  "dispatches [] = []"
| "dispatches (DispatchEvent n d # xs) = (n, d) # dispatches xs"
| "dispatches (x # xs) = dispatches xs"

text \<open>
  The payload of an outgoing message, decoded and put into an inbound event: what the
  listener sees when the other side echoes the envelope.
\<close>

definition encode_then_wrap :: "MessageToBrowser \<Rightarrow> event option" where
  "encode_then_wrap m =
     (case JSON_stringify (envelope m) of
        None \<Rightarrow> None
      | Some payload \<Rightarrow>
          (case JSON_parse payload of None \<Rightarrow> None | Some v \<Rightarrow> Some \<lparr>detail = v\<rparr>))"


section \<open>Concrete events and pages\<close>

definition malformed_text :: string where
  "malformed_text = ''A malformed WebChannel event was received.''"

text \<open>An event of this channel carrying the message \<open>m\<close>.\<close>

definition channel_event :: "jsval \<Rightarrow> event" where
  "channel_event m = \<lparr>detail = JObj [(''id'', JStr ''profiler.firefox.com''), (''message'', m)]\<rparr>"

definition status_response_true :: jsval where
  "status_response_true =
     JObj [(''type'', JStr ''STATUS_RESPONSE''), (''menuButtonIsEnabled'', JBool True)]"

text \<open>An event of another channel.\<close>

definition foreign_event :: event where
  "foreign_event =
     \<lparr>detail = JObj [(''id'', JStr ''example.org''), (''message'', status_response_true)]\<rparr>"

text \<open>An event of another channel carrying the response of another request.\<close>

definition foreign_done_event :: event where
  "foreign_done_event =
     \<lparr>detail = JObj [(''id'', JStr ''example.org''),
                      (''message'', JObj [(''type'', JStr ''ENABLE_MENU_BUTTON_DONE'')])]\<rparr>"

text \<open>The event \<^verbatim>\<open>{ type: 123 }\<close> of this channel.\<close>

definition number_type_event :: event where
  "number_type_event = channel_event (JObj [(''type'', JNum 123)])"

text \<open>The page right after \<^verbatim>\<open>queryIsMenuButtonEnabled()\<close> was called, outside development.\<close>

definition pending_status :: state where
  "pending_status = sendMessageWithResponse False status_request fresh_page"

text \<open>More events of this channel: an error, an error together with the expected type,
  an \<^verbatim>\<open>error\<close> that is a number, and a response of another request.\<close>

definition error_event :: event where
  "error_event = channel_event (JObj [(''error'', JStr ''boom'')])"

definition error_and_type_event :: event where
  "error_and_type_event =
     channel_event (JObj [(''error'', JStr ''boom''), (''type'', JStr ''STATUS_RESPONSE'')])"

definition number_error_event :: event where
  "number_error_event =
     channel_event (JObj [(''error'', JNum 42), (''type'', JStr ''STATUS_RESPONSE'')])"

definition other_type_event :: event where
  "other_type_event = channel_event (JObj [(''type'', JStr ''ENABLE_MENU_BUTTON_DONE'')])"

text \<open>The text on the wire for an outgoing message.\<close>

definition wire_text :: "MessageToBrowser \<Rightarrow> string" where
  "wire_text m =
     ''{'' @ [CHR 0x22] @ ''id'' @ [CHR 0x22] @ '':'' @
       [CHR 0x22] @ ''profiler.firefox.com'' @ [CHR 0x22] @ '','' @
       [CHR 0x22] @ ''message'' @ [CHR 0x22] @ '':'' @
       ''{'' @ [CHR 0x22] @ ''type'' @ [CHR 0x22] @ '':'' @
         [CHR 0x22] @ message_type m @ [CHR 0x22] @ ''}'' @ ''}''"

text \<open>The listener was removed at most once, and is not registered once removed.\<close>

definition removed_once :: "state \<Rightarrow> bool" where
  "removed_once s = (if registered s then removals (trace s) = 0 else removals (trace s) \<le> 1)"


section \<open>Basic facts\<close>

lemma resolve_calls_append: "resolve_calls (xs @ ys) = resolve_calls xs @ resolve_calls ys"
  by (induction xs rule: resolve_calls.induct) simp_all

lemma reject_calls_append: "reject_calls (xs @ ys) = reject_calls xs @ reject_calls ys"
  by (induction xs rule: reject_calls.induct) simp_all

lemma removals_append: "removals (xs @ ys) = removals xs + removals ys"
  by (induction xs rule: removals.induct) simp_all

lemma dispatches_append: "dispatches (xs @ ys) = dispatches xs @ dispatches ys"
  by (induction xs rule: dispatches.induct) simp_all

text \<open>The listener, branch by branch.\<close>

lemma listener_classify:
  "listener development callback rej e s =
     (case classify e of
        Throws \<Rightarrow> Inl TypeError
      | RemoteError m \<Rightarrow>
          Inr (rej (MessageValue m)
                (removeEventListener ''WebChannelMessageToContent''
                  (console_error
                     [JStr (''[webchannel] %c'' @ string_of (get_prop m ''error'')), JStr LOG_STYLE] s)))
      | Ok m \<Rightarrow>
          (case callback m s of
             (True, s') \<Rightarrow>
               Inr (removeEventListener ''WebChannelMessageToContent''
                     (if development
                      then console_log
                             [JStr (''[webchannel] %creceived '' @ [CHR 0x22] @
                                    string_of (get_prop m ''type'') @ [CHR 0x22]),
                              JStr LOG_STYLE, m] s'
                      else s'))
           | (False, s') \<Rightarrow> Inr s')
      | MalformedEvent \<Rightarrow> Inr (listener_tail rej e s))"
  by (simp add: listener_def classify_def Let_def)

lemma deliver_unregistered: "\<not> registered s \<Longrightarrow> deliver development expected e s = s"
  by (simp add: deliver_def)

lemma deliver_all_unregistered:
  "\<not> registered s \<Longrightarrow> deliver_all development expected es s = s"
  by (induction es) (simp_all add: deliver_unregistered)

lemma deliver_not_terminal:
  "\<not> terminal expected e \<Longrightarrow> deliver development expected e s = s"
  by (cases "classify e")
     (simp_all add: deliver_def listener_classify terminal_def handleMessage_def)

lemma deliver_all_not_terminal:
  "\<forall>e\<in>set es. \<not> terminal expected e \<Longrightarrow> deliver_all development expected es s = s"
  by (induction es) (simp_all add: deliver_not_terminal)

lemma deliver_settled:
  "promise s \<noteq> Pending \<Longrightarrow> promise (deliver development expected e s) = promise s"
  by (cases "classify e")
     (simp_all add: deliver_def listener_classify handleMessage_def listener_tail_def
        console_error_def console_log_def removeEventListener_def resolve_def reject_def emit_def)

lemma registered_sendMessageWithResponse [simp]:
  "registered (sendMessageWithResponse development req s) = True"
  by (simp add: sendMessageWithResponse_def sendMessage_def registerOneOffListener_def
      addEventListener_def console_log_def emit_def)

lemma promise_sendMessageWithResponse [simp]:
  "promise (sendMessageWithResponse development req s) = Pending"
  by (simp add: sendMessageWithResponse_def sendMessage_def registerOneOffListener_def
      addEventListener_def console_log_def emit_def)

lemma calls_sendMessageWithResponse [simp]:
  "resolve_calls (trace (sendMessageWithResponse development req s)) = resolve_calls (trace s)"
  "reject_calls (trace (sendMessageWithResponse development req s)) = reject_calls (trace s)"
  "removals (trace (sendMessageWithResponse development req s)) = removals (trace s)"
  by (simp_all add: sendMessageWithResponse_def sendMessage_def registerOneOffListener_def
      addEventListener_def console_log_def emit_def resolve_calls_append reject_calls_append
      removals_append)

lemma pending_status_simps [simp]:
  "registered pending_status" "promise pending_status = Pending"
  "resolve_calls (trace pending_status) = []" "reject_calls (trace pending_status) = []"
  "removals (trace pending_status) = 0"
  by (simp_all add: pending_status_def fresh_page_def)

lemma classify_foreign_event: "classify foreign_event = MalformedEvent"
  by (simp add: classify_def foreign_event_def status_response_true_def)

lemma classify_channel_event:
  "classify (channel_event m) =
     (if truthy m \<and> typeof m = ''object''
      then if typeof (get_prop m ''error'') = ''string'' then RemoteError m
           else if typeof (get_prop m ''type'') = ''string'' then Ok m
           else MalformedEvent
      else MalformedEvent)"
  by (simp add: classify_def channel_event_def)

lemma classify_fallthrough:
  assumes "detail e \<noteq> JUndefined" and "detail e \<noteq> JNull"
    and "get_prop (detail e) ''id'' \<noteq> JStr ''profiler.firefox.com'' \<or>
         \<not> truthy (get_prop (detail e) ''message'') \<or>
         typeof (get_prop (detail e) ''message'') \<noteq> ''object''"
  shows "classify e = MalformedEvent"
  using assms by (auto simp add: classify_def Let_def)

lemma classify_guarded:
  assumes "detail e \<noteq> JUndefined" and "detail e \<noteq> JNull"
    and "get_prop (detail e) ''id'' = JStr ''profiler.firefox.com''"
    and "truthy (get_prop (detail e) ''message'')"
    and "typeof (get_prop (detail e) ''message'') = ''object''"
  shows "classify e =
     (if typeof (get_prop (get_prop (detail e) ''message'') ''error'') = ''string''
        then RemoteError (get_prop (detail e) ''message'')
      else if typeof (get_prop (get_prop (detail e) ''message'') ''type'') = ''string''
        then Ok (get_prop (detail e) ''message'')
      else MalformedEvent)"
  using assms by (simp add: classify_def Let_def)

lemmas effects_defs =
  listener_tail_def console_error_def console_log_def removeEventListener_def resolve_def
  reject_def emit_def

lemma channel_event_detail:
  "detail (channel_event m) \<noteq> JUndefined" "detail (channel_event m) \<noteq> JNull"
  "get_prop (detail (channel_event m)) ''id'' = JStr ''profiler.firefox.com''"
  "get_prop (detail (channel_event m)) ''message'' = m"
  by (simp_all add: channel_event_def)

lemma status_response_true_shape:
  "truthy status_response_true" "typeof status_response_true = ''object''"
  "typeof (get_prop status_response_true ''error'') \<noteq> ''string''"
  "typeof (get_prop status_response_true ''type'') = ''string''"
  "get_prop status_response_true ''type'' = JStr ''STATUS_RESPONSE''"
  "get_prop status_response_true ''menuButtonIsEnabled'' = JBool True"
  by (simp_all add: status_response_true_def)

lemma error_message_shape:
  "truthy (JObj [(''error'', JStr ''boom'')])" "typeof (JObj [(''error'', JStr ''boom'')]) = ''object''"
  "typeof (get_prop (JObj [(''error'', JStr ''boom'')]) ''error'') = ''string''"
  by simp_all

lemma status_request_simps:
  "expectedResponse status_request = ''STATUS_RESPONSE''" "message status_request = STATUS_QUERY"
  by (simp_all add: status_request_def)

lemma deliver_RemoteError:
  assumes "classify e = RemoteError m" and "registered s"
  shows "deliver development expected e s =
     reject (MessageValue m)
       (removeEventListener ''WebChannelMessageToContent''
         (console_error
            [JStr (''[webchannel] %c'' @ string_of (get_prop m ''error'')), JStr LOG_STYLE] s))"
  using assms by (simp add: deliver_def listener_classify)

lemma deliver_MalformedEvent:
  assumes "classify e = MalformedEvent" and "registered s"
  shows "deliver development expected e s = listener_tail reject e s"
  using assms by (simp add: deliver_def listener_classify)

lemma deliver_Ok_expected:
  assumes "classify e = Ok m" and "get_prop m ''type'' = JStr expected" and "registered s"
  shows "deliver development expected e s =
     removeEventListener ''WebChannelMessageToContent''
       (if development
        then console_log
               [JStr (''[webchannel] %creceived '' @ [CHR 0x22] @ expected @ [CHR 0x22]),
                JStr LOG_STYLE, m] (resolve m s)
        else resolve m s)"
  using assms by (simp add: deliver_def listener_classify handleMessage_def)

lemma deliver_all_settled:
  "promise s \<noteq> Pending \<Longrightarrow> promise (deliver_all development expected es s) = promise s"
  by (induction es arbitrary: s) (simp_all add: deliver_settled)

text \<open>What \<^const>\<open>terminal\<close> says, in the words of the listener's tests.\<close>

lemma terminal_iff:
  "terminal expected e \<longleftrightarrow>
     detail e \<noteq> JUndefined \<and> detail e \<noteq> JNull \<and>
     (get_prop (detail e) ''id'' \<noteq> JStr ''profiler.firefox.com'' \<or>
      \<not> truthy (get_prop (detail e) ''message'') \<or>
      typeof (get_prop (detail e) ''message'') \<noteq> ''object'' \<or>
      typeof (get_prop (get_prop (detail e) ''message'') ''error'') = ''string'' \<or>
      typeof (get_prop (get_prop (detail e) ''message'') ''type'') \<noteq> ''string'' \<or>
      get_prop (get_prop (detail e) ''message'') ''type'' = JStr expected)"
  by (auto simp add: terminal_def classify_def Let_def)

text \<open>The terminal events are the listed ones and those that fail the outer test.\<close>

lemma terminal_listed_or_fails:
  "terminal expected e \<longleftrightarrow> listed_terminal expected e \<or> fails_outer_test e"
  by (auto simp add: terminal_def classify_def listed_terminal_def passes_outer_test_def
      fails_outer_test_def Let_def)

lemma classify_foreign_done_event: "classify foreign_done_event = MalformedEvent"
  by (simp add: classify_def foreign_done_event_def)

text \<open>Along every run of a request the listener is removed at most once.\<close>

lemma removed_once_deliver:
  "removed_once s \<Longrightarrow> removed_once (deliver development expected e s)"
  by (cases "classify e")
     (auto simp add: removed_once_def deliver_def listener_classify handleMessage_def effects_defs
        removals_append split: if_splits)

lemma removed_once_deliver_all:
  "removed_once s \<Longrightarrow> removed_once (deliver_all development expected es s)"
  by (induction es arbitrary: s) (simp_all add: removed_once_deliver)

lemma removed_at_most_once:
  "removals (trace (deliver_all development expected es
      (sendMessageWithResponse development req fresh_page))) \<le> 1"
proof -
  have "removed_once (sendMessageWithResponse development req fresh_page)"
    by (simp add: removed_once_def fresh_page_def)
  then have "removed_once (deliver_all development expected es
      (sendMessageWithResponse development req fresh_page))"
    by (rule removed_once_deliver_all)
  then show ?thesis
    by (simp add: removed_once_def split: if_splits)
qed

text \<open>The envelope on the wire, and back.\<close>

lemma stringify_envelope: "JSON_stringify (envelope m) = Some (wire_text m)"
  by (cases m) (simp_all add: envelope_def message_object_def wire_text_def JSON_quote_def quote_char_def)

lemma parse_wire_text: "JSON_parse (wire_text m) = Some (envelope m)"
  by (cases m)
     (simp_all add: JSON_parse_def wire_text_def envelope_def message_object_def unescape_def)

lemma encode_then_wrap_envelope: "encode_then_wrap m = Some \<lparr>detail = envelope m\<rparr>"
  by (simp add: encode_then_wrap_def stringify_envelope parse_wire_text)

lemma classify_envelope: "classify \<lparr>detail = envelope m\<rparr> = Ok (message_object m)"
  by (simp add: classify_def envelope_def message_object_def)


section \<open>Events that fail the outer test of the listener\<close>

text \<open>
  C1, as stated, fails: an event of another channel delivered to a pending request makes
  the listener call \<^verbatim>\<open>reject\<close>, and the promise is rejected with the error for malformed
  events.
\<close>

theorem C1_counterexample:
  "get_prop (detail foreign_event) ''id'' \<noteq> JStr ''profiler.firefox.com'' \<and>
   registered pending_status \<and> promise pending_status = Pending \<and>
   promise (deliver False ''STATUS_RESPONSE'' foreign_event pending_status) =
     Rejected (ErrorObject malformed_text) \<and>
   reject_calls (trace (deliver False ''STATUS_RESPONSE'' foreign_event pending_status)) =
     [ErrorObject malformed_text]"
proof -
  have "get_prop (detail foreign_event) ''id'' \<noteq> JStr ''profiler.firefox.com''"
    by (simp add: foreign_event_def)
  moreover have "deliver False ''STATUS_RESPONSE'' foreign_event pending_status =
      listener_tail reject foreign_event pending_status"
    by (simp add: deliver_def listener_classify classify_foreign_event)
  ultimately show ?thesis
    by (simp add: effects_defs malformed_text_def reject_calls_append)
qed

text \<open>
  C1, amended: for every inbound event with a \<^verbatim>\<open>detail\<close> whose \<^verbatim>\<open>id\<close> is not
  \<^verbatim>\<open>"profiler.firefox.com"\<close>, or whose \<^verbatim>\<open>message\<close> is falsy or not an object, the listener
  calls \<^verbatim>\<open>reject\<close> once with the error for malformed events, which rejects the promise
  if it is still pending, and it does not call \<^verbatim>\<open>resolve\<close>.
\<close>

theorem C1_foreign_event_rejected:
  assumes "detail e \<noteq> JUndefined" and "detail e \<noteq> JNull"
    and "get_prop (detail e) ''id'' \<noteq> JStr ''profiler.firefox.com'' \<or>
         \<not> truthy (get_prop (detail e) ''message'') \<or>
         typeof (get_prop (detail e) ''message'') \<noteq> ''object''"
  shows "\<exists>s'. listener development (handleMessage expected) reject e s = Inr s' \<and>
           promise s' =
             (if promise s = Pending then Rejected (ErrorObject malformed_text) else promise s) \<and>
           reject_calls (trace s') = reject_calls (trace s) @ [ErrorObject malformed_text] \<and>
           resolve_calls (trace s') = resolve_calls (trace s)"
proof -
  have "listener development (handleMessage expected) reject e s = Inr (listener_tail reject e s)"
    by (simp add: listener_classify classify_fallthrough [OF assms])
  then show ?thesis
    by (simp add: effects_defs malformed_text_def reject_calls_append resolve_calls_append)
qed

theorem C1_foreign_event_rejected_witness:
  "detail foreign_event \<noteq> JUndefined \<and> detail foreign_event \<noteq> JNull \<and>
   get_prop (detail foreign_event) ''id'' \<noteq> JStr ''profiler.firefox.com'' \<and>
   (\<exists>s'. listener False (handleMessage ''STATUS_RESPONSE'') reject foreign_event pending_status =
            Inr s' \<and>
          promise s' = Rejected (ErrorObject malformed_text) \<and>
          reject_calls (trace s') = [ErrorObject malformed_text] \<and>
          resolve_calls (trace s') = [])"
proof -
  have a: "detail foreign_event \<noteq> JUndefined" and b: "detail foreign_event \<noteq> JNull"
    and c: "get_prop (detail foreign_event) ''id'' \<noteq> JStr ''profiler.firefox.com''"
    by (simp_all add: foreign_event_def)
  from c have d: "get_prop (detail foreign_event) ''id'' \<noteq> JStr ''profiler.firefox.com'' \<or>
         \<not> truthy (get_prop (detail foreign_event) ''message'') \<or>
         typeof (get_prop (detail foreign_event) ''message'') \<noteq> ''object''"
    by simp
  show ?thesis
    using a b c
      C1_foreign_event_rejected [OF a b d, of False "''STATUS_RESPONSE''" pending_status]
    by simp
qed


section \<open>The listener after the promise has settled\<close>

text \<open>
  C2 fails on the code. The event \<^verbatim>\<open>{ type: 123 }\<close> of this channel rejects the pending
  promise and leaves the listener registered; a second such event calls \<^verbatim>\<open>reject\<close>
  again, and a later \<^verbatim>\<open>STATUS_RESPONSE\<close> calls \<^verbatim>\<open>resolve\<close> on the settled promise.
  (What does hold: \<open>removed_at_most_once\<close> and \<open>deliver_all_settled\<close>.)
\<close>

theorem C2_settled_promise_still_listened:
  "promise (deliver False ''STATUS_RESPONSE'' number_type_event pending_status) =
     Rejected (ErrorObject malformed_text) \<and>
   registered (deliver False ''STATUS_RESPONSE'' number_type_event pending_status) \<and>
   reject_calls (trace (deliver_all False ''STATUS_RESPONSE''
      [number_type_event, number_type_event] pending_status)) =
     [ErrorObject malformed_text, ErrorObject malformed_text] \<and>
   resolve_calls (trace (deliver_all False ''STATUS_RESPONSE''
      [number_type_event, channel_event status_response_true] pending_status)) =
     [status_response_true]"
proof -
  have c: "classify number_type_event = MalformedEvent"
    by (simp add: number_type_event_def classify_channel_event)
  have d: "classify (channel_event status_response_true) = Ok status_response_true"
    "get_prop status_response_true ''type'' = JStr ''STATUS_RESPONSE''"
    by (simp_all add: classify_channel_event status_response_true_def)
  have r: "registered (deliver False ''STATUS_RESPONSE'' number_type_event pending_status)"
    by (simp add: c deliver_MalformedEvent effects_defs)
  show ?thesis
    by (simp add: c r d deliver_MalformedEvent deliver_Ok_expected effects_defs malformed_text_def
        reject_calls_append resolve_calls_append)
qed


section \<open>Malformed events of this channel\<close>

text \<open>
  C3 fails on the code. The event \<^verbatim>\<open>{ type: 123 }\<close> of this channel, delivered to a
  pending request, rejects the promise with the error for malformed events, but
  \<^verbatim>\<open>removeEventListener\<close> is not called and the listener stays registered.
\<close>

theorem C3_malformed_keeps_listener:
  "classify number_type_event = MalformedEvent \<and>
   promise (deliver False ''STATUS_RESPONSE'' number_type_event pending_status) =
     Rejected (ErrorObject malformed_text) \<and>
   registered (deliver False ''STATUS_RESPONSE'' number_type_event pending_status) \<and>
   removals (trace (deliver False ''STATUS_RESPONSE'' number_type_event pending_status)) = 0"
proof -
  have c: "classify number_type_event = MalformedEvent"
    by (simp add: number_type_event_def classify_channel_event)
  show ?thesis
    by (simp add: c deliver_MalformedEvent effects_defs malformed_text_def removals_append)
qed


section \<open>Valid messages\<close>

text \<open>
  C4: for every inbound event of this channel whose message is an object with a string
  \<^verbatim>\<open>type\<close> and no string \<^verbatim>\<open>error\<close>, delivered to a pending request: if the type is
  not the expected one, nothing changes at all; if it is, the listener is removed (once),
  \<^verbatim>\<open>resolve\<close> is called with that message and the promise is resolved with it,
  \<^verbatim>\<open>reject\<close> is not called, and no later event changes anything.
\<close>

theorem C4_valid_message:
  assumes "detail e \<noteq> JUndefined" and "detail e \<noteq> JNull"
    and "get_prop (detail e) ''id'' = JStr ''profiler.firefox.com''"
    and "get_prop (detail e) ''message'' = m"
    and "truthy m" and "typeof m = ''object''"
    and "typeof (get_prop m ''error'') \<noteq> ''string''"
    and "typeof (get_prop m ''type'') = ''string''"
    and "registered s" and "promise s = Pending"
  shows "let s' = deliver development expected e s in
     if get_prop m ''type'' = JStr expected
     then registered s' = False \<and> promise s' = Resolved m \<and>
          resolve_calls (trace s') = resolve_calls (trace s) @ [m] \<and>
          reject_calls (trace s') = reject_calls (trace s) \<and>
          removals (trace s') = Suc (removals (trace s)) \<and>
          deliver_all development expected es s' = s'
     else s' = s"
proof -
  have c: "classify e = Ok m"
    using assms by (simp add: classify_guarded)
  show ?thesis
  proof (cases "get_prop m ''type'' = JStr expected")
    case True
    have "\<not> registered (deliver development expected e s)"
      by (simp add: deliver_Ok_expected [OF c True \<open>registered s\<close>] effects_defs)
    then have "deliver_all development expected es (deliver development expected e s) =
        deliver development expected e s"
      by (rule deliver_all_unregistered)
    then show ?thesis
      using True \<open>promise s = Pending\<close>
      by (simp add: Let_def deliver_Ok_expected [OF c True \<open>registered s\<close>] effects_defs
          resolve_calls_append reject_calls_append removals_append)
  next
    case False
    then have "\<not> terminal expected e"
      by (simp add: terminal_def c)
    then show ?thesis
      using False by (simp add: Let_def deliver_not_terminal)
  qed
qed

theorem C4_valid_message_witness:
  "truthy status_response_true \<and> typeof status_response_true = ''object'' \<and>
   typeof (get_prop status_response_true ''error'') \<noteq> ''string'' \<and>
   typeof (get_prop status_response_true ''type'') = ''string'' \<and>
   registered pending_status \<and> promise pending_status = Pending \<and>
   promise (deliver False ''STATUS_RESPONSE'' (channel_event status_response_true) pending_status) =
     Resolved status_response_true \<and>
   registered (deliver False ''STATUS_RESPONSE'' (channel_event status_response_true) pending_status) =
     False \<and>
   deliver False ''ENABLE_MENU_BUTTON_DONE'' (channel_event status_response_true) pending_status =
     pending_status"
proof -
  note t = C4_valid_message [OF channel_event_detail status_response_true_shape(1-4)
      pending_status_simps(1,2)]
  show ?thesis
    using t [of False "''STATUS_RESPONSE''" "[]"] t [of False "''ENABLE_MENU_BUTTON_DONE''" "[]"]
    by (simp add: Let_def status_response_true_shape)
qed


section \<open>Remote errors\<close>

text \<open>
  C5: for every inbound event of this channel whose message is an object with a string
  \<^verbatim>\<open>error\<close>, delivered to a pending request, the listener is removed (once),
  \<^verbatim>\<open>reject\<close> is called with the message itself and the promise is rejected with it,
  \<^verbatim>\<open>resolve\<close> is not called, and no later event changes anything.
\<close>

theorem C5_remote_error:
  assumes "detail e \<noteq> JUndefined" and "detail e \<noteq> JNull"
    and "get_prop (detail e) ''id'' = JStr ''profiler.firefox.com''"
    and "get_prop (detail e) ''message'' = m"
    and "truthy m" and "typeof m = ''object''"
    and "typeof (get_prop m ''error'') = ''string''"
    and "registered s" and "promise s = Pending"
  shows "let s' = deliver development expected e s in
     registered s' = False \<and> promise s' = Rejected (MessageValue m) \<and>
     reject_calls (trace s') = reject_calls (trace s) @ [MessageValue m] \<and>
     resolve_calls (trace s') = resolve_calls (trace s) \<and>
     removals (trace s') = Suc (removals (trace s)) \<and>
     deliver_all development expected es s' = s'"
proof -
  have c: "classify e = RemoteError m"
    using assms by (simp add: classify_guarded)
  have "\<not> registered (deliver development expected e s)"
    by (simp add: deliver_RemoteError [OF c \<open>registered s\<close>] effects_defs)
  then have "deliver_all development expected es (deliver development expected e s) =
      deliver development expected e s"
    by (rule deliver_all_unregistered)
  then show ?thesis
    using \<open>promise s = Pending\<close>
    by (simp add: Let_def deliver_RemoteError [OF c \<open>registered s\<close>] effects_defs
        resolve_calls_append reject_calls_append removals_append)
qed

theorem C5_remote_error_witness:
  "typeof (get_prop (JObj [(''error'', JStr ''boom'')]) ''error'') = ''string'' \<and>
   registered pending_status \<and> promise pending_status = Pending \<and>
   promise (deliver False ''STATUS_RESPONSE'' error_event pending_status) =
     Rejected (MessageValue (JObj [(''error'', JStr ''boom'')])) \<and>
   registered (deliver False ''STATUS_RESPONSE'' error_event pending_status) = False \<and>
   reject_calls (trace (deliver False ''STATUS_RESPONSE'' error_event pending_status)) =
     [MessageValue (JObj [(''error'', JStr ''boom'')])] \<and>
   deliver_all False ''STATUS_RESPONSE'' [error_event]
     (deliver False ''STATUS_RESPONSE'' error_event pending_status) =
     deliver False ''STATUS_RESPONSE'' error_event pending_status"
  using C5_remote_error [OF channel_event_detail error_message_shape pending_status_simps(1,2),
      of False "''STATUS_RESPONSE''" "[error_event]"]
  by (simp add: Let_def error_event_def del: deliver_all.simps)


section \<open>The menu-button query\<close>

text \<open>
  C6: \<^verbatim>\<open>queryIsMenuButtonEnabled\<close> dispatches one event, whose payload decodes to the
  envelope of \<^verbatim>\<open>STATUS_QUERY\<close>; and when the inbound events are any number of events
  the listener lets pass, then a valid message of type \<^verbatim>\<open>STATUS_RESPONSE\<close>, then
  anything, the call resolves to the \<^verbatim>\<open>menuButtonIsEnabled\<close> field of that message. The
  witness is the response \<^verbatim>\<open>{ type: "STATUS_RESPONSE", menuButtonIsEnabled: true }\<close>, for
  which the call resolves to \<^verbatim>\<open>true\<close>.
\<close>

theorem C6_status_query:
  assumes "\<forall>x\<in>set before. \<not> terminal ''STATUS_RESPONSE'' x"
    and "detail e \<noteq> JUndefined" and "detail e \<noteq> JNull"
    and "get_prop (detail e) ''id'' = JStr ''profiler.firefox.com''"
    and "get_prop (detail e) ''message'' = m"
    and "truthy m" and "typeof m = ''object''"
    and "typeof (get_prop m ''error'') \<noteq> ''string''"
    and "get_prop m ''type'' = JStr ''STATUS_RESPONSE''"
  shows "dispatches (trace (queryIsMenuButtonEnabled_page development [])) =
           [(''WebChannelMessageToChrome'', JStr (wire_text STATUS_QUERY))] \<and>
         JSON_parse (wire_text STATUS_QUERY) = Some (envelope STATUS_QUERY) \<and>
         queryIsMenuButtonEnabled development (before @ e # after) =
           Resolved (get_prop m ''menuButtonIsEnabled'')"
proof -
  let ?s0 = "sendMessageWithResponse development status_request fresh_page"
  have c: "classify e = Ok m"
    using assms by (simp add: classify_guarded)
  have split: "deliver_all development ''STATUS_RESPONSE'' (before @ e # after) ?s0 =
      deliver_all development ''STATUS_RESPONSE'' after (deliver development ''STATUS_RESPONSE'' e ?s0)"
    using assms(1) by (induction before) (simp_all add: deliver_not_terminal)
  have d: "deliver development ''STATUS_RESPONSE'' e ?s0 =
      removeEventListener ''WebChannelMessageToContent''
       (if development
        then console_log
               [JStr (''[webchannel] %creceived '' @ [CHR 0x22] @ ''STATUS_RESPONSE'' @ [CHR 0x22]),
                JStr LOG_STYLE, m] (resolve m ?s0)
        else resolve m ?s0)"
    by (rule deliver_Ok_expected [OF c assms(9)]) simp
  have "\<not> registered (deliver development ''STATUS_RESPONSE'' e ?s0)"
    by (simp add: d effects_defs)
  then have "deliver_all development ''STATUS_RESPONSE'' (before @ e # after) ?s0 =
      deliver development ''STATUS_RESPONSE'' e ?s0"
    by (simp add: split deliver_all_unregistered)
  then have p: "promise (queryIsMenuButtonEnabled_page development (before @ e # after)) = Resolved m"
    by (simp add: queryIsMenuButtonEnabled_page_def status_request_simps d effects_defs)
  have m: "m \<noteq> JUndefined" "m \<noteq> JNull"
    using assms(6) by auto
  have q: "dispatches (trace (queryIsMenuButtonEnabled_page development [])) =
           [(''WebChannelMessageToChrome'', JStr (wire_text STATUS_QUERY))]"
    by (simp add: queryIsMenuButtonEnabled_page_def status_request_simps fresh_page_def
        sendMessageWithResponse_def sendMessage_def registerOneOffListener_def addEventListener_def
        console_log_def emit_def stringify_envelope dispatches_append)
  show ?thesis
    by (simp add: q parse_wire_text queryIsMenuButtonEnabled_def p m)
qed

theorem C6_status_query_witness:
  "\<not> terminal ''STATUS_RESPONSE'' other_type_event \<and>
   get_prop status_response_true ''type'' = JStr ''STATUS_RESPONSE'' \<and>
   get_prop status_response_true ''menuButtonIsEnabled'' = JBool True \<and>
   queryIsMenuButtonEnabled False
     [other_type_event, channel_event status_response_true, number_type_event] =
     Resolved (JBool True)"
proof -
  have b: "\<forall>x\<in>set [other_type_event]. \<not> terminal ''STATUS_RESPONSE'' x"
    by (simp add: terminal_def other_type_event_def classify_channel_event)
  show ?thesis
    using b C6_status_query [OF b channel_event_detail status_response_true_shape(1,2,3,5),
        of False "[number_type_event]"]
    by (simp add: status_response_true_shape)
qed


section \<open>The wire\<close>

text \<open>
  C7: for each of the two outgoing messages, \<^verbatim>\<open>_sendMessage\<close> dispatches a payload
  which, parsed and put into an inbound event, the listener takes into its \<^verbatim>\<open>type\<close>
  branch: for every callback the listener does exactly what it does after handing that
  message to the callback, and the \<^verbatim>\<open>type\<close> of the message is the \<^verbatim>\<open>type\<close> of the
  outgoing message. In particular a pending request that expects this type is resolved
  with the message.
\<close>

theorem C7_type_round_trip:
  "\<exists>payload v msg.
     dispatches (trace (sendMessage development m s)) =
       dispatches (trace s) @ [(''WebChannelMessageToChrome'', JStr payload)] \<and>
     JSON_parse payload = Some v \<and>
     encode_then_wrap m = Some \<lparr>detail = v\<rparr> \<and>
     classify \<lparr>detail = v\<rparr> = Ok msg \<and>
     get_prop msg ''type'' = get_prop (message_object m) ''type'' \<and>
     get_prop msg ''type'' = JStr (message_type m) \<and>
     listener development callback rej \<lparr>detail = v\<rparr> s' =
       (case callback msg s' of
          (True, s'') \<Rightarrow>
            Inr (removeEventListener ''WebChannelMessageToContent''
                  (if development
                   then console_log
                          [JStr (''[webchannel] %creceived '' @ [CHR 0x22] @ message_type m @
                                 [CHR 0x22]),
                           JStr LOG_STYLE, msg] s''
                   else s''))
        | (False, s'') \<Rightarrow> Inr s'') \<and>
     promise (deliver development (message_type m) \<lparr>detail = v\<rparr>
               (sendMessageWithResponse development req s)) = Resolved msg"
proof -
  have d: "dispatches (trace (sendMessage development m s)) =
       dispatches (trace s) @ [(''WebChannelMessageToChrome'', JStr (wire_text m))]"
    by (simp add: stringify_envelope sendMessage_def console_log_def emit_def dispatches_append)
  have t: "get_prop (message_object m) ''type'' = JStr (message_type m)"
    by (simp add: message_object_def)
  have l: "listener development callback rej \<lparr>detail = envelope m\<rparr> s' =
       (case callback (message_object m) s' of
          (True, s'') \<Rightarrow>
            Inr (removeEventListener ''WebChannelMessageToContent''
                  (if development
                   then console_log
                          [JStr (''[webchannel] %creceived '' @ [CHR 0x22] @ message_type m @
                                 [CHR 0x22]),
                           JStr LOG_STYLE, message_object m] s''
                   else s''))
        | (False, s'') \<Rightarrow> Inr s'')"
    by (simp add: listener_classify classify_envelope t split: prod.splits bool.splits)
  have p: "promise (deliver development (message_type m) \<lparr>detail = envelope m\<rparr>
               (sendMessageWithResponse development req s)) = Resolved (message_object m)"
    by (simp add: deliver_Ok_expected [OF classify_envelope t] effects_defs)
  show ?thesis
    using d parse_wire_text [of m] encode_then_wrap_envelope [of m] classify_envelope [of m] t l p
    by blast
qed

theorem C7_type_round_trip_witness:
  "\<exists>payload v msg.
     dispatches (trace (sendMessage False STATUS_QUERY fresh_page)) =
       [(''WebChannelMessageToChrome'', JStr payload)] \<and>
     JSON_parse payload = Some v \<and>
     classify \<lparr>detail = v\<rparr> = Ok msg \<and>
     get_prop msg ''type'' = JStr ''STATUS_QUERY'' \<and>
     listener False (handleMessage ''STATUS_QUERY'') reject \<lparr>detail = v\<rparr> pending_status =
       Inr (removeEventListener ''WebChannelMessageToContent'' (resolve msg pending_status)) \<and>
     promise (deliver False ''STATUS_QUERY'' \<lparr>detail = v\<rparr>
               (sendMessageWithResponse False status_request fresh_page)) = Resolved msg"
  using C7_type_round_trip [of False STATUS_QUERY fresh_page "handleMessage ''STATUS_QUERY''"
      reject pending_status status_request]
  by (auto simp add: fresh_page_def handleMessage_def)

text \<open>
  C8: for each outgoing message, \<^verbatim>\<open>_sendMessage\<close> dispatches exactly one event, named
  \<^verbatim>\<open>WebChannelMessageToChrome\<close>, whose detail is a string that parses to
  \<^verbatim>\<open>{ id: "profiler.firefox.com", message: <the message> }\<close>; serialising always gives a
  string, and sending changes neither the listener nor the promise.
\<close>

theorem C8_send_message:
  "\<exists>payload. JSON_stringify (envelope m) = Some payload \<and>
     JSON_parse payload =
       Some (JObj [(''id'', JStr ''profiler.firefox.com''), (''message'', message_object m)]) \<and>
     dispatches (trace (sendMessage development m s)) =
       dispatches (trace s) @ [(''WebChannelMessageToChrome'', JStr payload)] \<and>
     registered (sendMessage development m s) = registered s \<and>
     promise (sendMessage development m s) = promise s"
proof -
  have "JSON_parse (wire_text m) =
      Some (JObj [(''id'', JStr ''profiler.firefox.com''), (''message'', message_object m)])"
    by (simp add: parse_wire_text envelope_def)
  then show ?thesis
    by (simp add: stringify_envelope sendMessage_def console_log_def emit_def dispatches_append)
qed

theorem C8_send_message_witness:
  "\<exists>payload. JSON_stringify (envelope ENABLE_MENU_BUTTON) = Some payload \<and>
     JSON_parse payload =
       Some (JObj [(''id'', JStr ''profiler.firefox.com''),
                   (''message'', JObj [(''type'', JStr ''ENABLE_MENU_BUTTON'')])]) \<and>
     dispatches (trace (sendMessage True ENABLE_MENU_BUTTON fresh_page)) =
       [(''WebChannelMessageToChrome'', JStr payload)]"
  using C8_send_message [of ENABLE_MENU_BUTTON True fresh_page]
  by (auto simp add: message_object_def fresh_page_def)


section \<open>No timeout\<close>

text \<open>
  C9, as stated, fails: an event of another channel that carries the response of another
  request is none of the three listed terminal events (not a remote error, not a
  malformed event of this channel, not a message of the expected type), and still it
  settles the pending promise.
\<close>

theorem C9_counterexample:
  "\<not> listed_terminal ''STATUS_RESPONSE'' foreign_done_event \<and>
   promise pending_status = Pending \<and>
   promise (deliver_all False ''STATUS_RESPONSE'' [foreign_done_event] pending_status) =
     Rejected (ErrorObject malformed_text)"
proof -
  have "\<not> listed_terminal ''STATUS_RESPONSE'' foreign_done_event"
    by (simp add: listed_terminal_def passes_outer_test_def foreign_done_event_def)
  then show ?thesis
    by (simp add: classify_foreign_done_event deliver_MalformedEvent effects_defs
        malformed_text_def)
qed

text \<open>
  C9, amended: after \<^verbatim>\<open>_sendMessageWithResponse\<close>, whatever events are delivered, the
  promise is settled only if one of them is a remote error, a malformed event, a message
  of the expected type, or an event that fails the outer test of the listener (its
  \<^verbatim>\<open>id\<close> is not the channel's, or its \<^verbatim>\<open>message\<close> is absent or not an object). While
  no such event is delivered the promise stays pending, the listener stays registered and
  nothing else happens: the only transitions of a request are deliveries of events, there
  is no timeout and no cancellation.
\<close>

theorem C9_pending_until_terminal:
  "(promise (deliver_all development (expectedResponse req) es
       (sendMessageWithResponse development req s)) \<noteq> Pending \<longrightarrow>
      (\<exists>e\<in>set es. listed_terminal (expectedResponse req) e \<or> fails_outer_test e)) \<and>
   ((\<forall>e\<in>set es. \<not> listed_terminal (expectedResponse req) e \<and> \<not> fails_outer_test e) \<longrightarrow>
      promise (deliver_all development (expectedResponse req) es
        (sendMessageWithResponse development req s)) = Pending \<and>
      registered (deliver_all development (expectedResponse req) es
        (sendMessageWithResponse development req s)) \<and>
      trace (deliver_all development (expectedResponse req) es
        (sendMessageWithResponse development req s)) =
        trace (sendMessageWithResponse development req s))"
proof -
  have quiet: "deliver_all development (expectedResponse req) es
        (sendMessageWithResponse development req s) = sendMessageWithResponse development req s"
    if "\<forall>e\<in>set es. \<not> listed_terminal (expectedResponse req) e \<and> \<not> fails_outer_test e"
  proof (rule deliver_all_not_terminal)
    show "\<forall>e\<in>set es. \<not> terminal (expectedResponse req) e"
      using that by (simp add: terminal_listed_or_fails)
  qed
  show ?thesis
  proof (cases "\<forall>e\<in>set es. \<not> listed_terminal (expectedResponse req) e \<and> \<not> fails_outer_test e")
    case True
    then show ?thesis by (simp add: quiet)
  next
    case False
    then show ?thesis by blast
  qed
qed

theorem C9_pending_until_terminal_witness:
  "\<not> listed_terminal ''STATUS_RESPONSE'' \<lparr>detail = JNull\<rparr> \<and>
   \<not> fails_outer_test \<lparr>detail = JNull\<rparr> \<and>
   \<not> listed_terminal ''STATUS_RESPONSE'' other_type_event \<and>
   \<not> fails_outer_test other_type_event \<and>
   promise (deliver_all False ''STATUS_RESPONSE'' [\<lparr>detail = JNull\<rparr>, other_type_event]
     (sendMessageWithResponse False status_request fresh_page)) = Pending \<and>
   registered (deliver_all False ''STATUS_RESPONSE'' [\<lparr>detail = JNull\<rparr>, other_type_event]
     (sendMessageWithResponse False status_request fresh_page))"
proof -
  have a: "\<not> listed_terminal ''STATUS_RESPONSE'' \<lparr>detail = JNull\<rparr>"
    "\<not> fails_outer_test \<lparr>detail = JNull\<rparr>"
    by (simp_all add: listed_terminal_def passes_outer_test_def fails_outer_test_def)
  have b: "\<not> listed_terminal ''STATUS_RESPONSE'' other_type_event"
    "\<not> fails_outer_test other_type_event"
    by (simp_all add: listed_terminal_def passes_outer_test_def fails_outer_test_def
        other_type_event_def channel_event_def)
  show ?thesis
    using a b C9_pending_until_terminal [of False status_request
        "[\<lparr>detail = JNull\<rparr>, other_type_event]" fresh_page]
    by (simp add: status_request_simps del: deliver_all.simps)
qed


section \<open>The error test comes first\<close>

text \<open>
  C10: for every inbound event of this channel whose message is an object: if
  \<^verbatim>\<open>error\<close> is a string, then whatever callback was registered and whatever
  \<^verbatim>\<open>type\<close> is, the listener removes itself and rejects with the message, and the
  callback is not run (a pending promise is rejected and \<^verbatim>\<open>resolve\<close> is not called,
  also when \<^verbatim>\<open>type\<close> is the expected one); if \<^verbatim>\<open>error\<close> is not a string and
  \<^verbatim>\<open>type\<close> is, the message goes to the callback.
\<close>

theorem C10_error_before_type:
  assumes "detail e \<noteq> JUndefined" and "detail e \<noteq> JNull"
    and "get_prop (detail e) ''id'' = JStr ''profiler.firefox.com''"
    and "get_prop (detail e) ''message'' = m"
    and "truthy m" and "typeof m = ''object''"
  shows "(typeof (get_prop m ''error'') = ''string'' \<longrightarrow>
            listener development callback rej e s =
              Inr (rej (MessageValue m)
                    (removeEventListener ''WebChannelMessageToContent''
                      (console_error
                         [JStr (''[webchannel] %c'' @ string_of (get_prop m ''error'')),
                          JStr LOG_STYLE] s)))) \<and>
         (typeof (get_prop m ''error'') = ''string'' \<and> registered s \<and> promise s = Pending \<longrightarrow>
            promise (deliver development expected e s) = Rejected (MessageValue m) \<and>
            resolve_calls (trace (deliver development expected e s)) = resolve_calls (trace s)) \<and>
         (typeof (get_prop m ''error'') \<noteq> ''string'' \<and> typeof (get_prop m ''type'') = ''string'' \<longrightarrow>
            listener development callback rej e s =
              (case callback m s of
                 (True, s') \<Rightarrow>
                   Inr (removeEventListener ''WebChannelMessageToContent''
                         (if development
                          then console_log
                                 [JStr (''[webchannel] %creceived '' @ [CHR 0x22] @
                                        string_of (get_prop m ''type'') @ [CHR 0x22]),
                                  JStr LOG_STYLE, m] s'
                          else s'))
               | (False, s') \<Rightarrow> Inr s'))"
proof -
  note c = classify_guarded [OF assms(1,2,3), unfolded assms(4), OF assms(5,6)]
  show ?thesis
    by (simp add: listener_classify deliver_def c effects_defs resolve_calls_append)
qed

theorem C10_error_before_type_witness:
  "typeof (get_prop (JObj [(''error'', JStr ''boom''), (''type'', JStr ''STATUS_RESPONSE'')]) ''error'') =
     ''string'' \<and>
   typeof (get_prop (JObj [(''error'', JStr ''boom''), (''type'', JStr ''STATUS_RESPONSE'')]) ''type'') =
     ''string'' \<and>
   promise (deliver False ''STATUS_RESPONSE'' error_and_type_event pending_status) =
     Rejected (MessageValue (JObj [(''error'', JStr ''boom''), (''type'', JStr ''STATUS_RESPONSE'')])) \<and>
   resolve_calls (trace (deliver False ''STATUS_RESPONSE'' error_and_type_event pending_status)) = [] \<and>
   typeof (get_prop (JObj [(''error'', JNum 42), (''type'', JStr ''STATUS_RESPONSE'')]) ''error'') \<noteq>
     ''string'' \<and>
   listener False (handleMessage ''STATUS_RESPONSE'') reject number_error_event pending_status =
     Inr (removeEventListener ''WebChannelMessageToContent''
           (resolve (JObj [(''error'', JNum 42), (''type'', JStr ''STATUS_RESPONSE'')]) pending_status))"
proof -
  have a: "truthy (JObj [(''error'', JStr ''boom''), (''type'', JStr ''STATUS_RESPONSE'')])"
    "typeof (JObj [(''error'', JStr ''boom''), (''type'', JStr ''STATUS_RESPONSE'')]) = ''object''"
    and b: "truthy (JObj [(''error'', JNum 42), (''type'', JStr ''STATUS_RESPONSE'')])"
    "typeof (JObj [(''error'', JNum 42), (''type'', JStr ''STATUS_RESPONSE'')]) = ''object''"
    by simp_all
  show ?thesis
    using C10_error_before_type [OF channel_event_detail a,
        of False "handleMessage ''STATUS_RESPONSE''" reject pending_status "''STATUS_RESPONSE''"]
      C10_error_before_type [OF channel_event_detail b,
        of False "handleMessage ''STATUS_RESPONSE''" reject pending_status "''STATUS_RESPONSE''"]
    by (simp add: error_and_type_event_def number_error_event_def handleMessage_def)
qed

end
